theory Spec2Isabelle
  imports Main "HOL-Library.Char_ord" "HOL-Library.List_Lexorder" "HOL-Library.Option_ord"
begin

section \<open>The message store of whatsapp.py\<close>

text \<open>
  The module \<^verbatim>\<open>whatsapp-mcp-server/whatsapp.py\<close> answers every query with SQL statements
  against an SQLite file. The store is modelled by its three tables, each a list of rows in
  scan order. Modelling conventions, used throughout:
  \<^item> a string is a list of characters (code points below 256); text columns compare by
    SQLite's BINARY collation, which on such text is the lexicographic order of the
    characters;
  \<^item> a timestamp column holds text. A Python \<^verbatim>\<open>datetime\<close> is the point in time it
    denotes together with the text \<^verbatim>\<open>isoformat(" ")\<close> gives for it, which is what the
    \<^verbatim>\<open>sqlite3\<close> adapter binds when a \<^verbatim>\<open>datetime\<close> is a query parameter. All comparisons
    of timestamps in the module happen in SQL, on text;
  \<^item> what the module takes from outside the repository is a parameter, the record
    \<open>platform\<close>: \<^verbatim>\<open>datetime.fromisoformat\<close> (\<open>None\<close> where Python raises
    \<^verbatim>\<open>ValueError\<close>), \<^verbatim>\<open>strftime("%Y-%m-%d %H:%M:%S")\<close>, \<^verbatim>\<open>str.upper\<close>, and the row that
    \<^verbatim>\<open>fetchone()\<close> yields from the rows of a query without \<^verbatim>\<open>ORDER BY\<close>;
  \<^item> a nullable column or \<^verbatim>\<open>Optional\<close> field is an \<open>option\<close>, \<open>None\<close> is SQL's NULL;
  \<^item> an integer parameter is bound as a 64-bit SQLite INTEGER: outside that range
    \<^verbatim>\<open>execute\<close> raises \<^verbatim>\<open>OverflowError\<close>, which no handler of the module catches;
  \<^item> every query is a full scan; \<^verbatim>\<open>ORDER BY\<close> is a stable sort of the scan order (SQLite
    leaves the order of ties open; the model fixes one);
  \<^item> a store that cannot be opened (\<^verbatim>\<open>sqlite3.connect\<close> raises \<^verbatim>\<open>sqlite3.Error\<close>) is
    the database value \<open>Unavailable\<close>; on an open store the one statement error modelled
    is the LIKE pattern that is too long.
\<close>

record datetime =
  instant :: int
  isoformat :: string

record Message =
  timestamp :: datetime
  sender :: string
  content :: string
  is_from_me :: bool
  chat_jid :: string
  msg_id :: string
  chat_name :: "string option"
  media_type :: "string option"

record Chat =
  jid :: string
  name :: "string option"
  last_message_time :: "datetime option"
  last_message :: "string option"
  last_sender :: "string option"
  last_is_from_me :: "bool option"

record Contact =
  phone_number :: string
  contact_name :: "string option"
  contact_jid :: string

record MessageContext =
  message :: Message
  before :: "Message list"
  after :: "Message list"

text \<open>The rows of the tables \<^verbatim>\<open>messages\<close> and \<^verbatim>\<open>chats\<close>; a row of \<^verbatim>\<open>contacts\<close> has the
  columns of \<open>Contact\<close>.\<close>

record message_row =
  row_chat_jid :: string
  row_id :: string
  row_timestamp :: string
  row_sender :: string
  row_content :: string
  row_is_from_me :: bool
  row_media_type :: "string option"

record chat_row =
  c_jid :: string
  c_name :: "string option"
  c_last_message_time :: "string option"
  c_last_message :: "string option"
  c_last_sender :: "string option"
  c_last_is_from_me :: "bool option"

record store =
  messages :: "message_row list"
  chats :: "chat_row list"
  contacts :: "Contact list"

datatype db = Unavailable | Open store

text \<open>The exceptions: \<open>ValueError\<close> with the message the module gives it,
  \<open>InvalidIsoformat s\<close> for the \<^verbatim>\<open>ValueError\<close> that \<^verbatim>\<open>datetime.fromisoformat\<close> raises on the
  stored text \<open>s\<close>, \<^verbatim>\<open>OverflowError\<close> and \<^verbatim>\<open>sqlite3.Error\<close>.\<close>

datatype error = ValueError string | InvalidIsoformat string | OverflowError | Sqlite3Error

text \<open>A row of \<^verbatim>\<open>messages LEFT JOIN chats\<close>: the message row and \<^verbatim>\<open>chats.name\<close>.\<close>

type_synonym joined = "message_row \<times> string option"

record platform =
  fromisoformat :: "string \<Rightarrow> datetime option"
  strftime :: "datetime \<Rightarrow> string"
  str_upper :: "string \<Rightarrow> string"
  fetchone_message :: "joined list \<Rightarrow> joined"
  fetchone_contact :: "Contact list \<Rightarrow> Contact"

subsection \<open>SQL building blocks\<close>

text \<open>The range of a bound integer parameter.\<close>

definition fits_int64 :: "int \<Rightarrow> bool" where
  "fits_int64 n = (- (2 ^ 63) \<le> n \<and> n < 2 ^ 63)"

text \<open>\<^verbatim>\<open>LIMIT n\<close> and \<^verbatim>\<open>OFFSET m\<close> for bound values: a negative \<open>n\<close> means no limit, a
  negative \<open>m\<close> skips nothing.\<close>

definition sql_limit :: "int \<Rightarrow> 'a list \<Rightarrow> 'a list" where
  "sql_limit n xs = (if n < 0 then xs else take (nat n) xs)"

definition sql_offset :: "int \<Rightarrow> 'a list \<Rightarrow> 'a list" where
  "sql_offset m xs = (if m < 0 then xs else drop (nat m) xs)"

definition order_by_asc :: "('a \<Rightarrow> 'k::linorder) \<Rightarrow> 'a list \<Rightarrow> 'a list" where
  "order_by_asc k xs = sort_key k xs"

definition order_by_desc :: "('a \<Rightarrow> 'k::linorder) \<Rightarrow> 'a list \<Rightarrow> 'a list" where
  "order_by_desc k xs = rev (sort_key k (rev xs))"

text \<open>\<^verbatim>\<open>LIMIT ? OFFSET ?\<close> with the parameters \<^verbatim>\<open>limit\<close> and
  \<^verbatim>\<open>offset = page * limit\<close>, as every paginated query of the module binds them.\<close>

definition paginate :: "int \<Rightarrow> int \<Rightarrow> 'a list \<Rightarrow> 'a list" where
  "paginate limit page xs = sql_limit limit (sql_offset (page * limit) xs)"

text \<open>The scan with its WHERE clause: the clause is evaluated row by row, and an error in
  one evaluation ends the statement. A \<^verbatim>\<open>LIMIT\<close> of 0 ends the statement before any row is
  read.\<close>

fun select_rows :: "('r \<Rightarrow> error + bool) \<Rightarrow> 'r list \<Rightarrow> error + 'r list" where
  "select_rows ev [] = Inr []"
| "select_rows ev (r # rs) =
     (case ev r of
        Inl e \<Rightarrow> Inl e
      | Inr b \<Rightarrow>
          (case select_rows ev rs of
             Inl e \<Rightarrow> Inl e
           | Inr rows \<Rightarrow> Inr (if b then r # rows else rows)))"

definition scan_where :: "int \<Rightarrow> ('r \<Rightarrow> error + bool) \<Rightarrow> 'r list \<Rightarrow> error + 'r list" where
  "scan_where limit ev rows = (if limit = 0 then Inr [] else select_rows ev rows)"

text \<open>The loop that turns the fetched rows into entities; the first row that cannot be
  mapped raises.\<close>

fun map_rows :: "('r \<Rightarrow> error + 'e) \<Rightarrow> 'r list \<Rightarrow> error + 'e list" where
  "map_rows f [] = Inr []"
| "map_rows f (r # rs) =
     (case f r of
        Inl e \<Rightarrow> Inl e
      | Inr x \<Rightarrow>
          (case map_rows f rs of
             Inl e \<Rightarrow> Inl e
           | Inr xs \<Rightarrow> Inr (x # xs)))"

subsection \<open>Strings: case folding, LIKE, join\<close>

text \<open>SQLite's built-in \<^verbatim>\<open>LOWER\<close> and the case folding inside \<^verbatim>\<open>LIKE\<close> change the 26
  ASCII letters and nothing else.\<close>

definition ascii_lower :: "char \<Rightarrow> char" where
  "ascii_lower c =
     (case map_of (zip ''ABCDEFGHIJKLMNOPQRSTUVWXYZ'' ''abcdefghijklmnopqrstuvwxyz'') c of
        Some l \<Rightarrow> l | None \<Rightarrow> c)"

definition sql_lower :: "string \<Rightarrow> string" where
  "sql_lower s = map ascii_lower s"

text \<open>The pattern match of \<^verbatim>\<open>LIKE\<close> with SQLite's defaults (no escape character), on
  characters: \<^verbatim>\<open>%\<close> stands for any run of characters, \<^verbatim>\<open>_\<close> for any one character,
  every other character for itself up to ASCII case. The pattern is the first argument.\<close>

fun like_match :: "string \<Rightarrow> string \<Rightarrow> bool" where
  "like_match [] s = (s = [])"
| "like_match (p # ps) s =
     (if p = CHR ''%'' then
        like_match ps s \<or> (case s of [] \<Rightarrow> False | _ # t \<Rightarrow> like_match (p # ps) t)
      else
        (case s of
           [] \<Rightarrow> False
         | c # t \<Rightarrow> (p = CHR ''_'' \<or> ascii_lower c = ascii_lower p) \<and> like_match ps t))"

text \<open>\<^verbatim>\<open>LIKE\<close> reads pattern and text as C strings: both end at the first NUL.\<close>

definition upto_nul :: "string \<Rightarrow> string" where
  "upto_nul s = takeWhile (\<lambda>c. c \<noteq> CHR 0x00) s"

definition like :: "string \<Rightarrow> string \<Rightarrow> bool" where
  "like pat s = like_match (upto_nul pat) (upto_nul s)"

text \<open>A pattern of more than 50000 bytes of UTF-8 (SQLite's default
  \<^verbatim>\<open>SQLITE_LIMIT_LIKE_PATTERN_LENGTH\<close>) makes \<^verbatim>\<open>LIKE\<close> fail with "LIKE or GLOB pattern
  too complex", an \<^verbatim>\<open>sqlite3.Error\<close>, whatever the text is, NULL included. A character
  below 128 is one byte, the others are two.\<close>

definition utf8_bytes :: "string \<Rightarrow> nat" where
  "utf8_bytes s = sum_list (map (\<lambda>c. if digit7 c then 2 else 1) s)"

definition like_too_complex :: "string \<Rightarrow> bool" where
  "like_too_complex pat = (50000 < utf8_bytes pat)"

text \<open>\<^verbatim>\<open>LOWER(column) LIKE LOWER(?)\<close> on a nullable column, for a pattern that is not too
  long: NULL is not a match.\<close>

definition lower_like :: "string \<Rightarrow> string option \<Rightarrow> bool" where
  "lower_like pat col =
     (case col of None \<Rightarrow> False | Some v \<Rightarrow> like (sql_lower pat) (sql_lower v))"


subsection \<open>The join and the row mappers\<close>

text \<open>\<^verbatim>\<open>FROM messages LEFT JOIN chats ON messages.chat_jid = chats.jid\<close>: every message
  row, once for each chat row with its \<open>jid\<close>, and once with a NULL name when there is none.\<close>

definition join_row :: "chat_row list \<Rightarrow> message_row \<Rightarrow> joined list" where
  "join_row cs r =
     (case filter (\<lambda>c. c_jid c = row_chat_jid r) cs of
        [] \<Rightarrow> [(r, None)]
      | c # cs' \<Rightarrow> map (\<lambda>c. (r, c_name c)) (c # cs'))"

definition messages_join_chats :: "store \<Rightarrow> joined list" where
  "messages_join_chats st = concat (map (join_row (chats st)) (messages st))"

text \<open>The constructor call \<^verbatim>\<open>Message(timestamp=..., ...)\<close> on the columns of one joined
  row, for the parsed timestamp \<open>t\<close>.\<close>

definition mk_Message :: "datetime \<Rightarrow> joined \<Rightarrow> Message" where
  "mk_Message t j =
     \<lparr>timestamp = t, sender = row_sender (fst j), content = row_content (fst j),
      is_from_me = row_is_from_me (fst j), chat_jid = row_chat_jid (fst j),
      msg_id = row_id (fst j), chat_name = snd j, media_type = row_media_type (fst j)\<rparr>"

text \<open>The row mapper: \<^verbatim>\<open>datetime.fromisoformat\<close> on the stored text raises when the text
  does not parse.\<close>

definition to_Message :: "platform \<Rightarrow> joined \<Rightarrow> error + Message" where
  "to_Message P j =
     (case fromisoformat P (row_timestamp (fst j)) of
        None \<Rightarrow> Inl (InvalidIsoformat (row_timestamp (fst j)))
      | Some t \<Rightarrow> Inr (mk_Message t j))"

text \<open>The row mapper of \<^verbatim>\<open>list_chats\<close>:
  \<^verbatim>\<open>datetime.fromisoformat(chat_data[2]) if chat_data[2] else None\<close>; without
  \<^verbatim>\<open>include_last_message\<close> the three last-message columns are selected as NULL.\<close>

definition mk_Chat :: "bool \<Rightarrow> datetime option \<Rightarrow> chat_row \<Rightarrow> Chat" where
  "mk_Chat include_last_message t r =
     \<lparr>jid = c_jid r, name = c_name r, last_message_time = t,
      last_message = (if include_last_message then c_last_message r else None),
      last_sender = (if include_last_message then c_last_sender r else None),
      last_is_from_me = (if include_last_message then c_last_is_from_me r else None)\<rparr>"

definition to_Chat :: "platform \<Rightarrow> bool \<Rightarrow> chat_row \<Rightarrow> error + Chat" where
  "to_Chat P include_last_message r =
     (case c_last_message_time r of
        None \<Rightarrow> Inr (mk_Chat include_last_message None r)
      | Some s \<Rightarrow>
          if s = [] then Inr (mk_Chat include_last_message None r)
          else (case fromisoformat P s of
                  None \<Rightarrow> Inl (InvalidIsoformat s)
                | Some t \<Rightarrow> Inr (mk_Chat include_last_message (Some t) r)))"

subsection \<open>get_message_context\<close>

definition get_message_context ::
  "platform \<Rightarrow> string \<Rightarrow> int \<Rightarrow> int \<Rightarrow> db \<Rightarrow> error + MessageContext" where
  "get_message_context P message_id n_before n_after d =
     (case d of
        Unavailable \<Rightarrow> Inl Sqlite3Error
      | Open st \<Rightarrow>
          (case filter (\<lambda>j. row_id (fst j) = message_id) (messages_join_chats st) of
             [] \<Rightarrow> Inl (ValueError (''Message with ID '' @ message_id @ '' not found''))
           | j # js \<Rightarrow>
               (case to_Message P (fetchone_message P (j # js)) of
                  Inl e \<Rightarrow> Inl e
                | Inr target_message \<Rightarrow>
                    if \<not> fits_int64 n_before then Inl OverflowError
                    else
                      (case map_rows (to_Message P)
                              (rev (sql_limit n_before
                                 (order_by_desc (\<lambda>j. row_timestamp (fst j))
                                    (filter (\<lambda>j. row_chat_jid (fst j) = chat_jid target_message
                                                \<and> row_timestamp (fst j)
                                                    < isoformat (timestamp target_message))
                                       (messages_join_chats st))))) of
                         Inl e \<Rightarrow> Inl e
                       | Inr before_messages \<Rightarrow>
                           if \<not> fits_int64 n_after then Inl OverflowError
                           else
                             (case map_rows (to_Message P)
                                     (sql_limit n_after
                                        (order_by_asc (\<lambda>j. row_timestamp (fst j))
                                           (filter (\<lambda>j. row_chat_jid (fst j)
                                                          = chat_jid target_message
                                                       \<and> row_timestamp (fst j)
                                                           > isoformat (timestamp target_message))
                                              (messages_join_chats st)))) of
                                Inl e \<Rightarrow> Inl e
                              | Inr after_messages \<Rightarrow>
                                  Inr \<lparr>message = target_message, before = before_messages,
                                       after = after_messages\<rparr>)))))"

subsection \<open>The presentation formatter\<close>




subsection \<open>list_messages\<close>

text \<open>A clause of the WHERE of \<^verbatim>\<open>list_messages\<close> with its bound parameter:
  \<^verbatim>\<open>messages.timestamp > ?\<close>, \<^verbatim>\<open>messages.timestamp < ?\<close>, \<^verbatim>\<open>messages.sender = ?\<close>,
  \<^verbatim>\<open>messages.chat_jid = ?\<close> and \<^verbatim>\<open>LOWER(messages.content) LIKE LOWER(?)\<close>.\<close>

datatype where_clause =
  TimestampGt string | TimestampLt string | SenderEq string | ChatJidEq string
  | ContentLike string

fun clause_holds :: "where_clause \<Rightarrow> joined \<Rightarrow> bool" where
  "clause_holds (TimestampGt p) j = (row_timestamp (fst j) > p)"
| "clause_holds (TimestampLt p) j = (row_timestamp (fst j) < p)"
| "clause_holds (SenderEq p) j = (row_sender (fst j) = p)"
| "clause_holds (ChatJidEq p) j = (row_chat_jid (fst j) = p)"
| "clause_holds (ContentLike p) j = lower_like p (Some (row_content (fst j)))"








subsection \<open>list_chats and search_contacts\<close>

text \<open>The WHERE of \<^verbatim>\<open>list_chats\<close> on one row, for the list of the patterns bound to
  \<^verbatim>\<open>LOWER(chats.name) LIKE LOWER(?)\<close> (none or one).\<close>

fun chat_where :: "string list \<Rightarrow> chat_row \<Rightarrow> error + bool" where
  "chat_where [] c = Inr True"
| "chat_where (p # ps) c =
     (if like_too_complex p then Inl Sqlite3Error
      else if lower_like p (c_name c) then chat_where ps c
      else Inr False)"

definition list_chats ::
  "platform \<Rightarrow> string option \<Rightarrow> int \<Rightarrow> int \<Rightarrow> bool \<Rightarrow> string \<Rightarrow> db \<Rightarrow> error + Chat list" where
  "list_chats P query limit page include_last_message sort_by d =
     (case d of
        Unavailable \<Rightarrow> Inr []
      | Open st \<Rightarrow>
          let params =
                (case query of
                   Some q \<Rightarrow> if q \<noteq> [] then [''%'' @ q @ ''%''] else []
                 | None \<Rightarrow> []);
              offset = page * limit
          in if \<not> (fits_int64 limit \<and> fits_int64 offset) then Inl OverflowError
             else
               (case scan_where limit (chat_where params) (chats st) of
                  Inl e \<Rightarrow> Inr []
                | Inr rows \<Rightarrow>
                    map_rows (to_Chat P include_last_message)
                      (sql_limit limit (sql_offset offset
                         (if sort_by = ''last_active''
                          then order_by_desc c_last_message_time rows
                          else if sort_by = ''name'' then order_by_asc c_name rows
                          else rows)))))"

text \<open>The WHERE of \<^verbatim>\<open>search_contacts\<close> on one row:
  \<^verbatim>\<open>LOWER(name) LIKE LOWER(?) OR phone_number LIKE ?\<close>, both parameters the same pattern.\<close>

definition contact_where :: "string \<Rightarrow> Contact \<Rightarrow> error + bool" where
  "contact_where p c =
     (if like_too_complex p then Inl Sqlite3Error
      else Inr (lower_like p (contact_name c) \<or> like p (phone_number c)))"

definition search_contacts :: "string \<Rightarrow> db \<Rightarrow> Contact list" where
  "search_contacts query d =
     (case d of
        Unavailable \<Rightarrow> []
      | Open st \<Rightarrow>
          (case scan_where 50 (contact_where (''%'' @ query @ ''%'')) (contacts st) of
             Inl e \<Rightarrow> []
           | Inr rows \<Rightarrow> sql_limit 50 (order_by_asc contact_name rows)))"

section \<open>Notions used to state the properties\<close>

subsection \<open>Well-formed input\<close>

text \<open>\<^verbatim>\<open>fetchone()\<close> yields one of the rows of the query.\<close>

definition fetch_ok :: "platform \<Rightarrow> bool" where
  "fetch_ok P = (\<forall>js. js \<noteq> [] \<longrightarrow> fetchone_message P js \<in> set js)"

text \<open>Every stored timestamp of a message, and every stored last-message time of a chat
  that is neither NULL nor empty, parses.\<close>

definition messages_parse :: "platform \<Rightarrow> store \<Rightarrow> bool" where
  "messages_parse P st = (\<forall>r \<in> set (messages st). fromisoformat P (row_timestamp r) \<noteq> None)"

definition chats_parse :: "platform \<Rightarrow> store \<Rightarrow> bool" where
  "chats_parse P st =
     (\<forall>r \<in> set (chats st).
        case c_last_message_time r of
          None \<Rightarrow> True
        | Some s \<Rightarrow> s = [] \<or> fromisoformat P s \<noteq> None)"



subsection \<open>The rows in the words of the specification\<close>

text \<open>The entity of a joined row whose timestamp parses, and of a chat row whose time
  parses when it has one.\<close>

definition msg_of :: "platform \<Rightarrow> joined \<Rightarrow> Message" where
  "msg_of P j = mk_Message (the (fromisoformat P (row_timestamp (fst j)))) j"

definition chat_of :: "platform \<Rightarrow> bool \<Rightarrow> chat_row \<Rightarrow> Chat" where
  "chat_of P include_last_message r =
     mk_Chat include_last_message
       (case c_last_message_time r of
          None \<Rightarrow> None
        | Some s \<Rightarrow> if s = [] then None else fromisoformat P s) r"

text \<open>The row that \<^verbatim>\<open>fetchone()\<close> yields for the lookup of a message by its id.\<close>

definition target_row :: "platform \<Rightarrow> string \<Rightarrow> store \<Rightarrow> joined" where
  "target_row P message_id st =
     fetchone_message P (filter (\<lambda>j. row_id (fst j) = message_id) (messages_join_chats st))"

text \<open>A joined row passes the filters when every clause holds for it; the primary rows
  are the page of the passing rows, newest stored text first.\<close>

definition where_holds :: "where_clause list \<Rightarrow> joined \<Rightarrow> bool" where
  "where_holds cl j = list_all (\<lambda>c. clause_holds c j) cl"

definition primary_rows :: "where_clause list \<Rightarrow> int \<Rightarrow> int \<Rightarrow> store \<Rightarrow> joined list" where
  "primary_rows cl limit page st =
     paginate limit page
       (order_by_desc (\<lambda>j. row_timestamp (fst j))
          (filter (where_holds cl) (messages_join_chats st)))"


text \<open>The candidate set of \<^verbatim>\<open>list_chats\<close>: all chats that pass the optional name filter
  (a case-insensitive substring pattern on a name that is not NULL), in scan order.\<close>

definition chat_candidates :: "string option \<Rightarrow> store \<Rightarrow> chat_row list" where
  "chat_candidates query st =
     (case query of
        None \<Rightarrow> chats st
      | Some q \<Rightarrow>
          if q = [] then chats st
          else filter (\<lambda>c. lower_like (''%'' @ q @ ''%'') (c_name c)) (chats st))"

text \<open>The pattern that a query gives is within the limit of \<^verbatim>\<open>LIKE\<close>.\<close>

definition query_ok :: "string option \<Rightarrow> bool" where
  "query_ok query =
     (case query of None \<Rightarrow> True | Some q \<Rightarrow> \<not> like_too_complex (''%'' @ q @ ''%''))"

text \<open>A string contains the query when the query, up to the case of ASCII letters, starts
  at one of its positions; a contact matches when its name (if it has one) or its phone
  number contains the query in the part that \<^verbatim>\<open>LIKE\<close> reads, up to the first NUL.\<close>

fun starts_with_ci :: "string \<Rightarrow> string \<Rightarrow> bool" where
  "starts_with_ci [] s = True"
| "starts_with_ci (p # ps) [] = False"
| "starts_with_ci (p # ps) (c # t) = (ascii_lower c = ascii_lower p \<and> starts_with_ci ps t)"

fun contains_ci :: "string \<Rightarrow> string \<Rightarrow> bool" where
  "contains_ci q [] = (q = [])"
| "contains_ci q (c # t) = (starts_with_ci q (c # t) \<or> contains_ci q t)"

definition contact_matches :: "string \<Rightarrow> Contact \<Rightarrow> bool" where
  "contact_matches q c =
     ((case contact_name c of None \<Rightarrow> False | Some n \<Rightarrow> contains_ci q (upto_nul n))
      \<or> contains_ci q (upto_nul (phone_number c)))"

section \<open>Concrete input\<close>

text \<open>The values of the library functions on the strings of the examples: times count
  microseconds from 2024-01-01 00:00:00, \<^verbatim>\<open>fromisoformat\<close> knows the texts below and
  rejects every other string, \<^verbatim>\<open>strftime\<close> gives the first 19 characters of the ISO text,
  \<^verbatim>\<open>fetchone()\<close> yields the first row of the scan.\<close>

definition dt :: "int \<Rightarrow> string \<Rightarrow> datetime" where
  "dt i s = \<lparr>instant = i, isoformat = s\<rparr>"

definition demo_fromisoformat :: "string \<Rightarrow> datetime option" where
  "demo_fromisoformat s =
     (if s = ''2024-01-01 00:00:01'' \<or> s = ''2024-01-01T00:00:01''
        then Some (dt 1000000 ''2024-01-01 00:00:01'')
      else if s = ''2024-01-01 00:00:02'' \<or> s = ''2024-01-01T00:00:02''
        then Some (dt 2000000 ''2024-01-01 00:00:02'')
      else if s = ''2024-01-01 00:00:02.500''
        then Some (dt 2500000 ''2024-01-01 00:00:02.500000'')
      else if s = ''2024-01-01 00:00:03'' \<or> s = ''2024-01-01T00:00:03''
        then Some (dt 3000000 ''2024-01-01 00:00:03'')
      else None)"

definition ascii_upper :: "char \<Rightarrow> char" where
  "ascii_upper c =
     (case map_of (zip ''abcdefghijklmnopqrstuvwxyz'' ''ABCDEFGHIJKLMNOPQRSTUVWXYZ'') c of
        Some u \<Rightarrow> u | None \<Rightarrow> c)"

definition demo_platform :: platform where
  "demo_platform =
     \<lparr>fromisoformat = demo_fromisoformat,
      strftime = (\<lambda>t. take 19 (isoformat t)),
      str_upper = map ascii_upper,
      fetchone_message = hd,
      fetchone_contact = hd\<rparr>"

text \<open>One group chat with three messages at seconds 1, 2 and 3, and two contacts.\<close>

definition msg_row :: "string \<Rightarrow> string \<Rightarrow> string \<Rightarrow> string \<Rightarrow> message_row" where
  "msg_row j i t c =
     \<lparr>row_chat_jid = j, row_id = i, row_timestamp = t, row_sender = ''555'',
      row_content = c, row_is_from_me = False, row_media_type = None\<rparr>"

definition team_chat :: chat_row where
  "team_chat =
     \<lparr>c_jid = ''120@g.us'', c_name = Some ''Team'',
      c_last_message_time = Some ''2024-01-01 00:00:03'', c_last_message = Some ''three'',
      c_last_sender = Some ''555'', c_last_is_from_me = Some False\<rparr>"

definition demo_contacts :: "Contact list" where
  "demo_contacts =
     [\<lparr>phone_number = ''555'', contact_name = Some ''Bob'',
       contact_jid = ''555@s.whatsapp.net''\<rparr>,
      \<lparr>phone_number = ''777'', contact_name = Some ''Ana Garcia'',
       contact_jid = ''777@s.whatsapp.net''\<rparr>]"

definition demo_store :: store where
  "demo_store =
     \<lparr>messages = [msg_row ''120@g.us'' ''A'' ''2024-01-01 00:00:01'' ''one'',
                  msg_row ''120@g.us'' ''B'' ''2024-01-01 00:00:02'' ''two'',
                  msg_row ''120@g.us'' ''C'' ''2024-01-01 00:00:03'' ''three''],
      chats = [team_chat], contacts = demo_contacts\<rparr>"



text \<open>A store of \<open>n\<close> one-to-one chats with distinct identifiers and distinct names, without
  a last message, and no messages.\<close>

definition many_chats :: "nat \<Rightarrow> store" where
  "many_chats n =
     \<lparr>messages = [],
      chats = map (\<lambda>i. \<lparr>c_jid = replicate (Suc i) CHR ''1'' @ ''@s.whatsapp.net'',
                         c_name = Some (replicate (Suc i) CHR ''a''),
                         c_last_message_time = None, c_last_message = None,
                         c_last_sender = None, c_last_is_from_me = None\<rparr>) [0..<n],
      contacts = []\<rparr>"

text \<open>The messages of the group chat as entities.\<close>

definition demo_msg :: "string \<Rightarrow> datetime \<Rightarrow> string \<Rightarrow> Message" where
  "demo_msg i t c =
     \<lparr>timestamp = t, sender = ''555'', content = c, is_from_me = False,
      chat_jid = ''120@g.us'', msg_id = i, chat_name = Some ''Team'', media_type = None\<rparr>"

section \<open>Properties\<close>

subsection \<open>Auxiliary facts about the building blocks\<close>

subsection \<open>Building blocks\<close>


lemma map_rows_ok:
  "(\<forall>r \<in> set rs. f r = Inr (g r)) \<Longrightarrow> map_rows f rs = Inr (map g rs)"
  by (induction rs) simp_all

lemma map_rows_length: "map_rows f rs = Inr xs \<Longrightarrow> length xs = length rs"
  by (induction rs arbitrary: xs) (auto split: sum.splits)

lemma map_rows_error: "map_rows f rs = Inl e \<Longrightarrow> \<exists>r \<in> set rs. f r = Inl e"
  by (induction rs) (auto split: sum.splits)


lemma join_row_ne: "join_row cs r \<noteq> []"
  by (simp add: join_row_def split: list.split)

lemma fst_join_row: "j \<in> set (join_row cs r) \<Longrightarrow> fst j = r"
  by (auto simp: join_row_def split: list.splits)

lemma fst_joined: "j \<in> set (messages_join_chats st) \<Longrightarrow> fst j \<in> set (messages st)"
  by (auto simp: messages_join_chats_def dest: fst_join_row)

lemma joined_of_row:
  assumes "r \<in> set (messages st)"
  obtains j where "j \<in> set (messages_join_chats st)" "fst j = r"
proof -
  obtain j where j: "j \<in> set (join_row (chats st) r)"
    using join_row_ne [of "chats st" r] by (cases "join_row (chats st) r") auto
  with assms have "j \<in> set (messages_join_chats st)"
    by (auto simp: messages_join_chats_def)
  moreover from j have "fst j = r" by (rule fst_join_row)
  ultimately show ?thesis using that by blast
qed


lemma sql_limit_subset: "set (sql_limit n xs) \<subseteq> set xs"
  by (auto simp: sql_limit_def dest: in_set_takeD)

lemma sql_offset_subset: "set (sql_offset n xs) \<subseteq> set xs"
  by (auto simp: sql_offset_def dest: in_set_dropD)

lemma paginate_subset: "set (paginate l p xs) \<subseteq> set xs"
  using sql_limit_subset [of l "sql_offset (p * l) xs"] sql_offset_subset [of "p * l" xs]
  by (auto simp: paginate_def)

lemma set_order_by_desc: "set (order_by_desc k xs) = set xs"
  by (simp add: order_by_desc_def)

lemma set_order_by_asc: "set (order_by_asc k xs) = set xs"
  by (simp add: order_by_asc_def)














lemma limit_desc_filter_subset:
  "set (sql_limit n (order_by_desc k (filter p xs))) \<subseteq> set xs"
proof -
  have "set (sql_limit n (order_by_desc k (filter p xs))) \<subseteq> set (order_by_desc k (filter p xs))"
    by (rule sql_limit_subset)
  then show ?thesis by (auto simp: set_order_by_desc)
qed

lemma limit_asc_filter_subset:
  "set (sql_limit n (order_by_asc k (filter p xs))) \<subseteq> set xs"
proof -
  have "set (sql_limit n (order_by_asc k (filter p xs))) \<subseteq> set (order_by_asc k (filter p xs))"
    by (rule sql_limit_subset)
  then show ?thesis by (auto simp: set_order_by_asc)
qed



subsection \<open>The context window\<close>

lemma to_Message_ok:
  "fromisoformat P (row_timestamp (fst j)) \<noteq> None \<Longrightarrow> to_Message P j = Inr (msg_of P j)"
  by (auto simp: to_Message_def msg_of_def)

lemma to_Message_joined:
  "messages_parse P st \<Longrightarrow> j \<in> set (messages_join_chats st) \<Longrightarrow>
     to_Message P j = Inr (msg_of P j)"
  by (rule to_Message_ok) (auto simp: messages_parse_def dest: fst_joined)

lemma to_Message_error: "to_Message P j = Inl e \<Longrightarrow> \<exists>s. e = InvalidIsoformat s"
  by (auto simp: to_Message_def split: option.splits)

lemma map_to_Message_error:
  "map_rows (to_Message P) js = Inl e \<Longrightarrow> \<exists>s. e = InvalidIsoformat s"
  by (blast dest: map_rows_error to_Message_error)

lemma map_to_Message_joined:
  "messages_parse P st \<Longrightarrow> set js \<subseteq> set (messages_join_chats st) \<Longrightarrow>
     map_rows (to_Message P) js = Inr (map (msg_of P) js)"
  by (rule map_rows_ok) (auto simp: to_Message_joined)

lemma msg_of_simps:
  "msg_id (msg_of P j) = row_id (fst j)"
  "chat_jid (msg_of P j) = row_chat_jid (fst j)"
  "timestamp (msg_of P j) = the (fromisoformat P (row_timestamp (fst j)))"
  by (simp_all add: msg_of_def mk_Message_def)

lemma target_missing:
  assumes "message_id \<notin> row_id ` set (messages st)"
  shows "filter (\<lambda>j. row_id (fst j) = message_id) (messages_join_chats st) = []"
  using assms by (auto simp: filter_empty_conv dest: fst_joined)

lemma target_found:
  assumes "message_id \<in> row_id ` set (messages st)"
  obtains j js
  where "filter (\<lambda>j. row_id (fst j) = message_id) (messages_join_chats st) = j # js"
proof -
  from assms obtain r where r: "r \<in> set (messages st)" "row_id r = message_id" by auto
  from r(1) obtain j0 where "j0 \<in> set (messages_join_chats st)" "fst j0 = r"
    by (rule joined_of_row)
  with r(2) have "filter (\<lambda>j. row_id (fst j) = message_id) (messages_join_chats st) \<noteq> []"
    by (auto simp: filter_empty_conv)
  then show ?thesis
    using that
    by (cases "filter (\<lambda>j. row_id (fst j) = message_id) (messages_join_chats st)") auto
qed

lemma not_found_only_if_missing:
  assumes "message_id \<in> row_id ` set (messages st)"
  shows "get_message_context P message_id nb na (Open st) \<noteq> Inl (ValueError v)"
proof -
  from assms obtain j js
    where f: "filter (\<lambda>j. row_id (fst j) = message_id) (messages_join_chats st) = j # js"
    by (rule target_found)
  show ?thesis
    by (auto simp: get_message_context_def f split: sum.splits
          dest: to_Message_error map_to_Message_error)
qed

text \<open>The run of \<^verbatim>\<open>get_message_context\<close> on well-formed input.\<close>

lemma target_row_ok:
  assumes fetch: "fetch_ok P" and ex: "message_id \<in> row_id ` set (messages st)"
  shows "target_row P message_id st \<in> set (messages_join_chats st)"
    and "row_id (fst (target_row P message_id st)) = message_id"
proof -
  from ex obtain j js
    where f: "filter (\<lambda>j. row_id (fst j) = message_id) (messages_join_chats st) = j # js"
    by (rule target_found)
  from fetch have "j # js \<noteq> [] \<longrightarrow> fetchone_message P (j # js) \<in> set (j # js)"
    unfolding fetch_ok_def by (rule spec)
  then have "fetchone_message P (j # js) \<in> set (j # js)" by simp
  then have "target_row P message_id st
      \<in> set (filter (\<lambda>j. row_id (fst j) = message_id) (messages_join_chats st))"
    by (simp only: target_row_def f)
  then show "target_row P message_id st \<in> set (messages_join_chats st)"
    and "row_id (fst (target_row P message_id st)) = message_id"
    by auto
qed

lemma context_run:
  assumes mp: "messages_parse P st"
    and ex: "message_id \<in> row_id ` set (messages st)"
    and tjJ: "target_row P message_id st \<in> set (messages_join_chats st)"
    and nb: "fits_int64 nb" and na: "fits_int64 na"
  shows "get_message_context P message_id nb na (Open st)
       = Inr \<lparr>message = msg_of P (target_row P message_id st),
              before = map (msg_of P)
                (rev (sql_limit nb
                   (order_by_desc (\<lambda>j. row_timestamp (fst j))
                      (filter (\<lambda>j. row_chat_jid (fst j)
                                     = row_chat_jid (fst (target_row P message_id st))
                                  \<and> row_timestamp (fst j)
                                      < isoformat (timestamp
                                          (msg_of P (target_row P message_id st))))
                         (messages_join_chats st))))),
              after = map (msg_of P)
                (sql_limit na
                   (order_by_asc (\<lambda>j. row_timestamp (fst j))
                      (filter (\<lambda>j. row_chat_jid (fst j)
                                     = row_chat_jid (fst (target_row P message_id st))
                                  \<and> row_timestamp (fst j)
                                      > isoformat (timestamp
                                          (msg_of P (target_row P message_id st))))
                         (messages_join_chats st))))\<rparr>"
proof -
  define J where "J = messages_join_chats st"
  define tj where "tj = target_row P message_id st"
  from ex obtain j js
    where f: "filter (\<lambda>j. row_id (fst j) = message_id) J = j # js"
    unfolding J_def by (rule target_found)
  have pick: "fetchone_message P (j # js) = tj"
    by (simp only: tj_def target_row_def J_def [symmetric] f)
  have t: "to_Message P tj = Inr (msg_of P tj)"
    using mp tjJ unfolding tj_def by (rule to_Message_joined)
  define B where "B = rev (sql_limit nb
                   (order_by_desc (\<lambda>j. row_timestamp (fst j))
                      (filter (\<lambda>j. row_chat_jid (fst j) = row_chat_jid (fst tj)
                                  \<and> row_timestamp (fst j) < isoformat (timestamp (msg_of P tj)))
                         J)))"
  define A where "A = sql_limit na
                   (order_by_asc (\<lambda>j. row_timestamp (fst j))
                      (filter (\<lambda>j. row_chat_jid (fst j) = row_chat_jid (fst tj)
                                  \<and> row_timestamp (fst j) > isoformat (timestamp (msg_of P tj)))
                         J))"
  have "set B \<subseteq> set J"
    using limit_desc_filter_subset [of nb _ _ J] by (simp add: B_def)
  then have b: "map_rows (to_Message P) B = Inr (map (msg_of P) B)"
    using mp unfolding J_def by (intro map_to_Message_joined)
  have "set A \<subseteq> set J"
    using limit_asc_filter_subset [of na _ _ J] by (simp add: A_def)
  then have a: "map_rows (to_Message P) A = Inr (map (msg_of P) A)"
    using mp unfolding J_def by (intro map_to_Message_joined)
  have "get_message_context P message_id nb na (Open st)
       = Inr \<lparr>message = msg_of P tj, before = map (msg_of P) B, after = map (msg_of P) A\<rparr>"
    using nb na f t b a
    by (simp add: get_message_context_def J_def [symmetric] pick
          msg_of_simps(2) B_def [symmetric] A_def [symmetric])
  then show ?thesis
    unfolding B_def A_def J_def tj_def .
qed

lemma fetch_ok_demo: "fetch_ok demo_platform"
  by (simp add: fetch_ok_def demo_platform_def)


lemma messages_parse_demo: "messages_parse demo_platform demo_store"
  by (simp add: messages_parse_def demo_store_def msg_row_def demo_platform_def
        demo_fromisoformat_def)


lemma fits_small: "fits_int64 0" "fits_int64 1" "fits_int64 2" "fits_int64 20"
  by (simp_all add: fits_int64_def)

text \<open>
  C6. \<^verbatim>\<open>get_message_context\<close> on an open store raises
  \<^verbatim>\<open>ValueError("Message with ID ... not found")\<close> when no message row has the given id,
  and only then: when a row has the id, the call does not raise that error, and on
  well-formed input (stored timestamps that parse, counts that fit 64 bits) it returns a
  context of a message with the id. The failure is an error value, never a context with
  empty windows.
\<close>

theorem get_message_context_not_found:
  "(message_id \<notin> row_id ` set (messages st) \<longrightarrow>
      get_message_context P message_id n_before n_after (Open st)
        = Inl (ValueError (''Message with ID '' @ message_id @ '' not found'')))
   \<and> (message_id \<in> row_id ` set (messages st) \<longrightarrow>
      get_message_context P message_id n_before n_after (Open st)
        \<noteq> Inl (ValueError (''Message with ID '' @ message_id @ '' not found'')))
   \<and> (message_id \<in> row_id ` set (messages st) \<and> fetch_ok P \<and> messages_parse P st
        \<and> fits_int64 n_before \<and> fits_int64 n_after \<longrightarrow>
      (\<exists>c. get_message_context P message_id n_before n_after (Open st) = Inr c
         \<and> msg_id (message c) = message_id))"
proof (intro conjI impI)
  assume "message_id \<notin> row_id ` set (messages st)"
  then show "get_message_context P message_id n_before n_after (Open st)
        = Inl (ValueError (''Message with ID '' @ message_id @ '' not found''))"
    by (simp add: get_message_context_def target_missing)
next
  assume "message_id \<in> row_id ` set (messages st)"
  then show "get_message_context P message_id n_before n_after (Open st)
        \<noteq> Inl (ValueError (''Message with ID '' @ message_id @ '' not found''))"
    by (rule not_found_only_if_missing)
next
  assume h: "message_id \<in> row_id ` set (messages st) \<and> fetch_ok P \<and> messages_parse P st
        \<and> fits_int64 n_before \<and> fits_int64 n_after"
  then have mp: "messages_parse P st" and fetch: "fetch_ok P"
    and ex: "message_id \<in> row_id ` set (messages st)"
    and nb: "fits_int64 n_before" and na: "fits_int64 n_after"
    by simp_all
  from fetch ex have tj: "target_row P message_id st \<in> set (messages_join_chats st)"
    "row_id (fst (target_row P message_id st)) = message_id"
    by (rule target_row_ok)+
  show "\<exists>c. get_message_context P message_id n_before n_after (Open st) = Inr c
         \<and> msg_id (message c) = message_id"
    by (simp add: context_run [OF mp ex tj(1) nb na] tj(2) msg_of_simps(1))
qed

theorem get_message_context_not_found_witness:
  "''Z'' \<notin> row_id ` set (messages demo_store)
   \<and> get_message_context demo_platform ''Z'' 1 1 (Open demo_store)
       = Inl (ValueError ''Message with ID Z not found'')
   \<and> ''B'' \<in> row_id ` set (messages demo_store)
   \<and> get_message_context demo_platform ''B'' 1 1 (Open demo_store)
       \<noteq> Inl (ValueError ''Message with ID B not found'')
   \<and> (\<exists>c. get_message_context demo_platform ''B'' 1 1 (Open demo_store) = Inr c
          \<and> msg_id (message c) = ''B'')"
proof -
  have z: "''Z'' \<notin> row_id ` set (messages demo_store)"
    by (simp add: demo_store_def msg_row_def)
  have b: "''B'' \<in> row_id ` set (messages demo_store)"
    by (simp add: demo_store_def msg_row_def)
  note t = get_message_context_not_found [of _ demo_store demo_platform 1 1]
  from t [of "''Z''"] z
  have "get_message_context demo_platform ''Z'' 1 1 (Open demo_store)
       = Inl (ValueError (''Message with ID '' @ ''Z'' @ '' not found''))"
    by blast
  then have rz: "get_message_context demo_platform ''Z'' 1 1 (Open demo_store)
       = Inl (ValueError ''Message with ID Z not found'')"
    by simp
  from t [of "''B''"] b
  have "get_message_context demo_platform ''B'' 1 1 (Open demo_store)
       \<noteq> Inl (ValueError (''Message with ID '' @ ''B'' @ '' not found''))"
    by blast
  then have rb: "get_message_context demo_platform ''B'' 1 1 (Open demo_store)
       \<noteq> Inl (ValueError ''Message with ID B not found'')"
    by simp
  from t [of "''B''"] b fetch_ok_demo messages_parse_demo fits_small(2)
  have rc: "\<exists>c. get_message_context demo_platform ''B'' 1 1 (Open demo_store) = Inr c
          \<and> msg_id (message c) = ''B''"
    by blast
  from z b rz rb rc show ?thesis by blast
qed










lemma demo_to_Message:
  "to_Message demo_platform (msg_row ''120@g.us'' i t c, Some ''Team'')
     = (case demo_fromisoformat t of
          None \<Rightarrow> Inl (InvalidIsoformat t)
        | Some d \<Rightarrow> Inr (demo_msg i d c))"
  by (simp add: to_Message_def mk_Message_def demo_platform_def msg_row_def demo_msg_def
        split: option.split)












subsection \<open>The primary rows, the context loop and the formatter\<close>





lemma primary_rows_hold: "j \<in> set (primary_rows cl l p st) \<Longrightarrow> where_holds cl j"
  using paginate_subset [of l p "order_by_desc (\<lambda>j. row_timestamp (fst j))
          (filter (where_holds cl) (messages_join_chats st))"]
  by (auto simp: primary_rows_def set_order_by_desc)








subsection \<open>Evaluation on the concrete input\<close>














subsection \<open>Time bounds that do not parse\<close>






end
